theory Spec2Isabelle
  imports Complex_Main
begin

section \<open>Floating-point values\<close>

text \<open>
  The arrays of \<^verbatim>\<open>tslearn/preprocessing.py\<close> hold IEEE doubles. A value is modelled as a
  finite number, one of the two infinities, or not-a-number (the missing-value sentinel
  \<^verbatim>\<open>numpy.nan\<close>). The special values follow the IEEE rules (\<open>0/0\<close>, \<open>inf - inf\<close> and
  \<open>0 * inf\<close> are not-a-number, every operation on not-a-number is not-a-number, every
  comparison with not-a-number is false). Arithmetic on finite values is exact: rounding,
  overflow and the sign of zero are not modelled, and a zero divisor counts as \<open>+0\<close>.
\<close>

datatype fl = Fin real | PInf | NInf | NaN

fun isnan :: "fl \<Rightarrow> bool" where
  "isnan NaN = True"
| "isnan _ = False"

fun isfinite :: "fl \<Rightarrow> bool" where
  "isfinite (Fin _) = True"
| "isfinite _ = False"

fun fneg :: "fl \<Rightarrow> fl" where
  "fneg (Fin a) = Fin (- a)"
| "fneg PInf = NInf"
| "fneg NInf = PInf"
| "fneg NaN = NaN"

fun fadd :: "fl \<Rightarrow> fl \<Rightarrow> fl" where
  "fadd (Fin a) (Fin b) = Fin (a + b)"
| "fadd NaN _ = NaN"
| "fadd _ NaN = NaN"
| "fadd PInf NInf = NaN"
| "fadd NInf PInf = NaN"
| "fadd PInf _ = PInf"
| "fadd _ PInf = PInf"
| "fadd NInf _ = NInf"
| "fadd _ NInf = NInf"

definition fsub :: "fl \<Rightarrow> fl \<Rightarrow> fl" where
  "fsub a b = fadd a (fneg b)"

text \<open>The sign of a value that is not not-a-number: \<open>-1\<close>, \<open>0\<close> or \<open>1\<close>.\<close>

fun fsgn :: "fl \<Rightarrow> real" where
  "fsgn (Fin a) = sgn a"
| "fsgn PInf = 1"
| "fsgn NInf = - 1"
| "fsgn NaN = 0"

definition inf_of_sign :: "real \<Rightarrow> fl" where
  "inf_of_sign s = (if s = 0 then NaN else if 0 < s then PInf else NInf)"

fun fmul :: "fl \<Rightarrow> fl \<Rightarrow> fl" where
  "fmul (Fin a) (Fin b) = Fin (a * b)"
| "fmul NaN _ = NaN"
| "fmul _ NaN = NaN"
| "fmul a b = inf_of_sign (fsgn a * fsgn b)"

fun fdiv :: "fl \<Rightarrow> fl \<Rightarrow> fl" where
  "fdiv (Fin a) (Fin b) = (if b = 0 then inf_of_sign (sgn a) else Fin (a / b))"
| "fdiv NaN _ = NaN"
| "fdiv _ NaN = NaN"
| "fdiv (Fin a) _ = Fin 0"
| "fdiv a (Fin b) = inf_of_sign (fsgn a * (if b < 0 then - 1 else 1))"
| "fdiv _ _ = NaN"

fun fsqrt :: "fl \<Rightarrow> fl" where
  "fsqrt (Fin a) = (if a < 0 then NaN else Fin (sqrt a))"
| "fsqrt PInf = PInf"
| "fsqrt _ = NaN"

text \<open>The comparisons \<^verbatim>\<open><\<close>, \<^verbatim>\<open><=\<close> and \<^verbatim>\<open>>=\<close> of two floats.\<close>

fun flt :: "fl \<Rightarrow> fl \<Rightarrow> bool" where
  "flt NaN _ = False"
| "flt _ NaN = False"
| "flt (Fin a) (Fin b) = (a < b)"
| "flt NInf b = (b \<noteq> NInf)"
| "flt a PInf = (a \<noteq> PInf)"
| "flt _ _ = False"

definition fle :: "fl \<Rightarrow> fl \<Rightarrow> bool" where
  "fle a b = (\<not> isnan a \<and> \<not> isnan b \<and> (flt a b \<or> a = b))"

definition fge :: "fl \<Rightarrow> fl \<Rightarrow> bool" where
  "fge a b = fle b a"


section \<open>numpy\<close>

text \<open>
  \<^verbatim>\<open>numpy.linspace(0, 1, num)\<close>: \<open>num\<close> evenly spaced positions from \<open>0\<close> to \<open>1\<close>, both
  included; the single position \<open>0\<close> for \<open>num = 1\<close>.
\<close>

definition linspace :: "nat \<Rightarrow> real list" where
  "linspace num = (if num = 1 then [0] else map (\<lambda>i. real i / real (num - 1)) [0..<num])"

text \<open>The samples of a slice that are not the missing-value sentinel.\<close>

definition valid :: "fl list \<Rightarrow> fl list" where
  "valid xs = filter (\<lambda>x. \<not> isnan x) xs"

text \<open>\<^verbatim>\<open>numpy.fmin\<close> and \<^verbatim>\<open>numpy.fmax\<close>: the other operand when one is not-a-number.\<close>

definition fmin :: "fl \<Rightarrow> fl \<Rightarrow> fl" where
  "fmin a b = (if isnan a then b else if isnan b then a else if flt b a then b else a)"

definition fmax :: "fl \<Rightarrow> fl \<Rightarrow> fl" where
  "fmax a b = (if isnan a then b else if isnan b then a else if flt a b then b else a)"

text \<open>
  \<^verbatim>\<open>numpy.nanmin\<close> and \<^verbatim>\<open>numpy.nanmax\<close> of one slice (the reduction of \<^verbatim>\<open>fmin\<close>, \<^verbatim>\<open>fmax\<close>
  over it): not-a-number for a slice with no valid sample. The reduction of a slice of
  length zero raises; that is decided where the whole array is reduced.
\<close>

fun nanmin :: "fl list \<Rightarrow> fl" where
  "nanmin [] = NaN"
| "nanmin (x # xs) = foldl fmin x xs"

fun nanmax :: "fl list \<Rightarrow> fl" where
  "nanmax [] = NaN"
| "nanmax (x # xs) = foldl fmax x xs"

definition fsum :: "fl list \<Rightarrow> fl" where
  "fsum xs = foldl fadd (Fin 0) xs"

text \<open>
  \<^verbatim>\<open>numpy.nanmean\<close> of one slice: the sum of the valid samples over their count
  (\<open>0/0\<close>, not-a-number, when there is none).
\<close>

definition nanmean :: "fl list \<Rightarrow> fl" where
  "nanmean xs = fdiv (fsum (valid xs)) (Fin (real (length (valid xs))))"

text \<open>
  \<^verbatim>\<open>numpy.nanstd\<close> of one slice (\<^verbatim>\<open>ddof = 0\<close>): the square root of the mean of the squared
  deviations of the valid samples from their mean.
\<close>

definition nanvar :: "fl list \<Rightarrow> fl" where
  "nanvar xs =
     (let avg = nanmean xs;
          sqr = map (\<lambda>x. fmul (fsub x avg) (fsub x avg)) (valid xs)
      in fdiv (fsum sqr) (Fin (real (length (valid xs)))))"

definition nanstd :: "fl list \<Rightarrow> fl" where
  "nanstd xs = fsqrt (nanvar xs)"

section \<open>Errors and warnings\<close>

text \<open>
  Every \<^verbatim>\<open>raise\<close> on a path of the module is a value. \<open>InvalidConfiguration lo hi\<close> is
  the \<^verbatim>\<open>ValueError\<close> of \<^verbatim>\<open>TimeSeriesScalerMinMax.transform\<close>, whose message ends with
  \<^verbatim>\<open>str(value_range)\<close>: the error carries the pair that the message prints.
  \<open>ShapeMismatch\<close> is the error of \<^verbatim>\<open>check_dims\<close>, \<open>NotFitted\<close> the \<^verbatim>\<open>AttributeError\<close> of
  reading \<^verbatim>\<open>self._X_fit_dims\<close> before \<^verbatim>\<open>fit\<close> has set it, \<open>InvalidInput\<close> the
  \<^verbatim>\<open>ValueError\<close> of \<^verbatim>\<open>check_array\<close> or of \<^verbatim>\<open>to_time_series_dataset\<close>, \<open>ZeroSizeReduction\<close>
  the \<^verbatim>\<open>ValueError\<close> of \<^verbatim>\<open>numpy.nanmin\<close> and \<^verbatim>\<open>numpy.nanmax\<close> over an axis of length zero,
  \<open>NegativeDimension\<close> that of \<^verbatim>\<open>numpy.empty\<close>, and \<open>InterpolationError\<close> that of
  \<^verbatim>\<open>scipy.interpolate.interp1d\<close>.
\<close>

datatype error =
    InvalidConfiguration fl fl
  | ShapeMismatch
  | NotFitted
  | InvalidInput
  | ZeroSizeReduction
  | NegativeDimension
  | InterpolationError

text \<open>The two \<^verbatim>\<open>DeprecationWarning\<close>s of \<^verbatim>\<open>TimeSeriesScalerMinMax.transform\<close>.\<close>

datatype warning = DeprecatedMin | DeprecatedMax

section \<open>Arrays\<close>

text \<open>
  What a caller passes as \<open>X\<close>: a flat sequence of numbers, a sequence of sequences
  (series by time) or a sequence of sequences of vectors (series by time by feature).
\<close>

datatype array_like =
    Flat "fl list"
  | Table "fl list list"
  | Cube "fl list list list"

text \<open>
  A three-dimensional \<^verbatim>\<open>numpy.ndarray\<close> with its shape \<open>(n_ts, sz, d)\<close>: the shape stays
  known when an axis has length zero.
\<close>

datatype tsdata = TSData (n_ts: nat) (sz_of: nat) (dim_of: nat) (series_of: "fl list list list")

text \<open>\<open>X[:, di]\<close> of one series: the values of feature \<open>di\<close> along the time axis.\<close>

definition column :: "nat \<Rightarrow> fl list list \<Rightarrow> fl list" where
  "column di s = map (\<lambda>step. step ! di) s"

text \<open>A list of lists all of the length of the first one.\<close>

definition rectangular :: "'a list list \<Rightarrow> bool" where
  "rectangular xs = (case xs of [] \<Rightarrow> True | x # _ \<Rightarrow> list_all (\<lambda>y. length y = length x) xs)"

definition row_len :: "'a list list \<Rightarrow> nat" where
  "row_len xs = (case xs of [] \<Rightarrow> 0 | x # _ \<Rightarrow> length x)"

text \<open>\<^verbatim>\<open>X.shape\<close> of the array that \<^verbatim>\<open>numpy\<close> builds from a rectangular nested sequence.\<close>

fun shape :: "array_like \<Rightarrow> nat list" where
  "shape (Flat xs) = [length xs]"
| "shape (Table xs) = [length xs, row_len xs]"
| "shape (Cube xs) = [length xs, row_len xs, row_len (concat xs)]"

section \<open>sklearn\<close>

text \<open>
  \<^verbatim>\<open>sklearn.utils.check_array(X, allow_nd=True, force_all_finite=False)\<close>: the input as
  an array. It raises for a ragged input (no numeric array), for fewer than two
  dimensions, for no sample, and for a two-dimensional array with no feature. Missing
  and infinite values are accepted.
\<close>

fun check_array :: "array_like \<Rightarrow> error + array_like" where
  "check_array (Flat xs) = Inl InvalidInput"
| "check_array (Table xs) =
     (if \<not> rectangular xs \<or> length xs < 1 \<or> row_len xs < 1 then Inl InvalidInput
      else Inr (Table xs))"
| "check_array (Cube xs) =
     (if \<not> rectangular xs \<or> \<not> rectangular (concat xs) \<or> length xs < 1 then Inl InvalidInput
      else Inr (Cube xs))"


section \<open>scipy\<close>

text \<open>
  \<^verbatim>\<open>scipy.interpolate.interp1d(x, y, kind="slinear")\<close>: the spline of order one through
  the points. Building it raises with fewer than two points. Calling it raises for a
  query outside \<open>[x[0], x[-1]]\<close>; inside, the value at \<open>v\<close> is the sum of the two
  neighbouring samples weighted by the two basis functions of the interval of \<open>v\<close>
  (the last interval for \<open>v = x[-1]\<close>).
\<close>

datatype interp = Interp "real list" "fl list"

definition interp1d :: "real list \<Rightarrow> fl list \<Rightarrow> error + interp" where
  "interp1d x y =
     (if length x \<noteq> length y \<or> length x < 2 then Inl InterpolationError
      else Inr (Interp x y))"

fun slinear :: "real list \<Rightarrow> fl list \<Rightarrow> real \<Rightarrow> fl" where
  "slinear (x0 # x1 # xs) (y0 # y1 # ys) v =
     (if v < x1 \<or> xs = []
      then fadd (fmul y0 (Fin ((x1 - v) / (x1 - x0)))) (fmul y1 (Fin ((v - x0) / (x1 - x0))))
      else slinear (x1 # xs) (y1 # ys) v)"
| "slinear _ _ v = NaN"

fun interp_call :: "interp \<Rightarrow> real list \<Rightarrow> error + fl list" where
  "interp_call (Interp (x0 # x1 # xs) y) xnew =
     (if list_ex (\<lambda>v. v < x0 \<or> last (x1 # xs) < v) xnew then Inl InterpolationError
      else Inr (map (slinear (x0 # x1 # xs) y) xnew))"
| "interp_call _ xnew = Inl InterpolationError"

section \<open>tslearn.utils\<close>

text \<open>
  Modelled from the spec: \<^verbatim>\<open>ts_size\<close> of \<^verbatim>\<open>tslearn.utils\<close> is not among the sources. The
  true length of a series is found by scanning from the end for the first step that is
  not padding; a padding step holds the missing-value sentinel in every feature.
\<close>

definition is_padding :: "fl list \<Rightarrow> bool" where
  "is_padding step = list_all isnan step"

definition ts_size :: "fl list list \<Rightarrow> nat" where
  "ts_size s = length (dropWhile is_padding (rev s))"

text \<open>
  Modelled from the spec: \<^verbatim>\<open>to_time_series_dataset\<close> of \<^verbatim>\<open>tslearn.utils\<close> (the Dataset
  Normalizer) is not among the sources. A flat sequence is one univariate series, a
  two-dimensional input holds univariate series, a three-dimensional input is taken as it
  is; all series share the feature dimensionality \<open>d\<close>; a series shorter than the
  dataset's maximum length is right-padded with sentinel steps up to it.
\<close>

fun as_series :: "array_like \<Rightarrow> fl list list list" where
  "as_series (Flat xs) = (if xs = [] then [] else [map (\<lambda>x. [x]) xs])"
| "as_series (Table xs) = map (map (\<lambda>x. [x])) xs"
| "as_series (Cube xs) = xs"

definition pad :: "nat \<Rightarrow> nat \<Rightarrow> fl list list \<Rightarrow> fl list list" where
  "pad max_sz d s = take (ts_size s) s @ replicate (max_sz - ts_size s) (replicate d NaN)"

definition to_time_series_dataset :: "array_like \<Rightarrow> error + tsdata" where
  "to_time_series_dataset X =
     (case as_series X of
        [] \<Rightarrow> Inr (TSData 0 0 0 [])
      | s0 # rest \<Rightarrow>
          (let d = (case s0 of [] \<Rightarrow> 1 | step # _ \<Rightarrow> length step);
               max_sz = foldr max (map ts_size (s0 # rest)) 0
           in if list_ex (list_ex (\<lambda>step. length step \<noteq> d)) (s0 # rest) then Inl InvalidInput
              else Inr (TSData (length (s0 # rest)) max_sz d (map (pad max_sz d) (s0 # rest)))))"

text \<open>
  Modelled from the spec: \<^verbatim>\<open>check_equal_size\<close> of \<^verbatim>\<open>tslearn.utils\<close> is not among the
  sources. It reports whether all series share a common length.
\<close>

definition check_equal_size :: "tsdata \<Rightarrow> bool" where
  "check_equal_size X =
     (case series_of X of [] \<Rightarrow> True | s0 # rest \<Rightarrow> list_all (\<lambda>s. ts_size s = ts_size s0) rest)"

text \<open>
  Modelled from the spec: \<^verbatim>\<open>check_dims\<close> of \<^verbatim>\<open>tslearn.utils\<close> (the Shape Validator) is not
  among the sources. Called with \<^verbatim>\<open>extend=False\<close> it returns the input as it is, or fails
  with a shape mismatch when the feature count of the input differs from that of the
  shape recorded at fit. A two-dimensional array holds univariate series.
\<close>

fun n_features :: "nat list \<Rightarrow> nat" where
  "n_features [n, sz] = 1"
| "n_features [n, sz, d] = d"
| "n_features _ = 0"

definition check_dims :: "array_like \<Rightarrow> nat list \<Rightarrow> error + array_like" where
  "check_dims X X_fit_dims =
     (if n_features X_fit_dims \<noteq> n_features (shape X) then Inl ShapeMismatch else Inr X)"

section \<open>Loops that may raise\<close>

text \<open>The results of the iterations of a loop, or the error of the first one that raises.\<close>

fun collect :: "('e + 'a) list \<Rightarrow> 'e + 'a list" where
  "collect [] = Inr []"
| "collect (Inl e # rs) = Inl e"
| "collect (Inr x # rs) = (case collect rs of Inl e \<Rightarrow> Inl e | Inr xs \<Rightarrow> Inr (x # xs))"

section \<open>TimeSeriesResampler\<close>

record TimeSeriesResampler =
  sz_param :: int


definition transform_unit_sz :: "TimeSeriesResampler \<Rightarrow> tsdata \<Rightarrow> tsdata" where
  "transform_unit_sz self X =
     TSData (n_ts X) (nat (sz_param self)) (dim_of X)
       (map (\<lambda>s. [map (\<lambda>di. nanmean (column di s)) [0..<dim_of X]]) (series_of X))"

text \<open>
  One iteration of the loop over the series: the rows \<open>X_out[i]\<close>, built from one column
  \<open>f(xnew)\<close> for each feature.
\<close>

definition resample_series :: "nat \<Rightarrow> nat \<Rightarrow> bool \<Rightarrow> nat \<Rightarrow> fl list list \<Rightarrow> error + fl list list" where
  "resample_series new_sz d equal_size sz0 s =
     (let xnew = linspace new_sz;
          sz = (if \<not> equal_size then ts_size s else sz0)
      in case collect (map (\<lambda>di.
                case interp1d (linspace sz) (column di (take sz s)) of
                  Inl e \<Rightarrow> Inl e
                | Inr f \<Rightarrow> interp_call f xnew) [0..<d]) of
           Inl e \<Rightarrow> Inl e
         | Inr cols \<Rightarrow> Inr (map (\<lambda>t. map (\<lambda>c. c ! t) cols) [0..<new_sz]))"

definition TimeSeriesResampler_transform :: "TimeSeriesResampler \<Rightarrow> array_like \<Rightarrow> error + tsdata" where
  "TimeSeriesResampler_transform self X =
     (case to_time_series_dataset X of
        Inl e \<Rightarrow> Inl e
      | Inr X' \<Rightarrow>
          if sz_param self = 1 then Inr (transform_unit_sz self X')
          else if sz_param self < 0 then Inl NegativeDimension
          else (case collect (map (resample_series (nat (sz_param self)) (dim_of X')
                                     (check_equal_size X') (sz_of X')) (series_of X')) of
                  Inl e \<Rightarrow> Inl e
                | Inr out \<Rightarrow> Inr (TSData (n_ts X') (nat (sz_param self)) (dim_of X') out)))"


section \<open>TimeSeriesScalerMinMax\<close>

text \<open>
  Both scalers keep the shape seen by \<^verbatim>\<open>fit\<close> in the attribute \<^verbatim>\<open>_X_fit_dims\<close>, which
  does not exist before the first \<^verbatim>\<open>fit\<close> (\<open>None\<close>).
\<close>

record estimator =
  X_fit_dims :: "nat list option"

text \<open>The parameters \<^verbatim>\<open>min\<close> and \<^verbatim>\<open>max\<close> default to \<^verbatim>\<open>None\<close>.\<close>

record TimeSeriesScalerMinMax = estimator +
  value_range :: "fl \<times> fl"
  min_param :: "fl option"
  max_param :: "fl option"

definition TimeSeriesScalerMinMax_fit ::
  "TimeSeriesScalerMinMax \<Rightarrow> array_like \<Rightarrow> error + TimeSeriesScalerMinMax" where
  "TimeSeriesScalerMinMax_fit self X =
     (case check_array X of
        Inl e \<Rightarrow> Inl e
      | Inr X' \<Rightarrow> Inr (self\<lparr>X_fit_dims := Some (shape X')\<rparr>))"

text \<open>
  The first lines of \<^verbatim>\<open>transform\<close>: the range in force and the warnings emitted while
  it is worked out.
\<close>

definition effective_range :: "TimeSeriesScalerMinMax \<Rightarrow> warning list \<times> (fl \<times> fl)" where
  "effective_range self =
     (let vr0 = value_range self;
          (w1, vr1) = (case min_param self of
                         Some m \<Rightarrow> ([DeprecatedMin], (m, snd vr0))
                       | None \<Rightarrow> ([], vr0));
          (w2, vr2) = (case max_param self of
                         Some m \<Rightarrow> ([DeprecatedMax], (fst vr1, m))
                       | None \<Rightarrow> ([], vr1))
      in (w1 @ w2, vr2))"

text \<open>
  The last lines of \<^verbatim>\<open>transform\<close>, for one series: \<open>min_t\<close>, \<open>max_t\<close> and \<open>range_t\<close> hold one
  value for each feature and are broadcast along the time axis.
\<close>

definition minmax_series :: "fl \<times> fl \<Rightarrow> nat \<Rightarrow> fl list list \<Rightarrow> fl list list" where
  "minmax_series vr d s =
     (let min_t = map (\<lambda>di. nanmin (column di s)) [0..<d];
          max_t = map (\<lambda>di. nanmax (column di s)) [0..<d];
          range_t = map (\<lambda>di. fsub (max_t ! di) (min_t ! di)) [0..<d]
      in map (\<lambda>step. map (\<lambda>di.
           (let nomin = fmul (fsub (step ! di) (min_t ! di)) (fsub (snd vr) (fst vr))
            in fadd (fdiv nomin (range_t ! di)) (fst vr))) [0..<d]) s)"

definition minmax_scale :: "fl \<times> fl \<Rightarrow> tsdata \<Rightarrow> error + tsdata" where
  "minmax_scale vr X =
     (if sz_of X = 0 then Inl ZeroSizeReduction
      else Inr (TSData (n_ts X) (sz_of X) (dim_of X)
                  (map (minmax_series vr (dim_of X)) (series_of X))))"

definition TimeSeriesScalerMinMax_transform ::
  "TimeSeriesScalerMinMax \<Rightarrow> array_like \<Rightarrow> warning list \<times> (error + tsdata)" where
  "TimeSeriesScalerMinMax_transform self X =
     (let (warnings, vr) = effective_range self
      in (warnings,
          if fge (fst vr) (snd vr) then Inl (InvalidConfiguration (fst vr) (snd vr))
          else (case check_array X of
                  Inl e \<Rightarrow> Inl e
                | Inr X1 \<Rightarrow>
                    (case X_fit_dims self of
                       None \<Rightarrow> Inl NotFitted
                     | Some dims \<Rightarrow>
                         (case check_dims X1 dims of
                            Inl e \<Rightarrow> Inl e
                          | Inr X2 \<Rightarrow>
                              (case to_time_series_dataset X2 of
                                 Inl e \<Rightarrow> Inl e
                               | Inr X3 \<Rightarrow> minmax_scale vr X3))))))"

section \<open>TimeSeriesScalerMeanVariance\<close>

record TimeSeriesScalerMeanVariance = estimator +
  mu :: fl
  std :: fl

definition TimeSeriesScalerMeanVariance_fit ::
  "TimeSeriesScalerMeanVariance \<Rightarrow> array_like \<Rightarrow> error + TimeSeriesScalerMeanVariance" where
  "TimeSeriesScalerMeanVariance_fit self X =
     (case check_array X of
        Inl e \<Rightarrow> Inl e
      | Inr X' \<Rightarrow> Inr (self\<lparr>X_fit_dims := Some (shape X')\<rparr>))"

text \<open>\<^verbatim>\<open>std_t[std_t == 0.] = 1.\<close>\<close>

definition guard_zero :: "fl \<Rightarrow> fl" where
  "guard_zero s = (if s = Fin 0 then Fin 1 else s)"

definition meanvar_series :: "fl \<Rightarrow> fl \<Rightarrow> nat \<Rightarrow> fl list list \<Rightarrow> fl list list" where
  "meanvar_series m sd d s =
     (let mean_t = map (\<lambda>di. nanmean (column di s)) [0..<d];
          std_t = map (\<lambda>di. guard_zero (nanstd (column di s))) [0..<d]
      in map (\<lambda>step. map (\<lambda>di.
           fadd (fdiv (fmul (fsub (step ! di) (mean_t ! di)) sd) (std_t ! di)) m) [0..<d]) s)"

definition TimeSeriesScalerMeanVariance_transform ::
  "TimeSeriesScalerMeanVariance \<Rightarrow> array_like \<Rightarrow> error + tsdata" where
  "TimeSeriesScalerMeanVariance_transform self X =
     (case check_array X of
        Inl e \<Rightarrow> Inl e
      | Inr X1 \<Rightarrow>
          (case X_fit_dims self of
             None \<Rightarrow> Inl NotFitted
           | Some dims \<Rightarrow>
               (case check_dims X1 dims of
                  Inl e \<Rightarrow> Inl e
                | Inr X2 \<Rightarrow>
                    (case to_time_series_dataset X2 of
                       Inl e \<Rightarrow> Inl e
                     | Inr X3 \<Rightarrow>
                         Inr (TSData (n_ts X3) (sz_of X3) (dim_of X3)
                                (map (meanvar_series (mu self) (std self) (dim_of X3))
                                   (series_of X3)))))))"


section \<open>Calls on a component\<close>








section \<open>Notions of the specification\<close>

text \<open>The number that a finite value holds.\<close>

fun fin_val :: "fl \<Rightarrow> real" where
  "fin_val (Fin a) = a"
| "fin_val _ = 0"

text \<open>
  A slice is constant when its valid samples are all the same value; a slice with a single
  valid sample is.
\<close>

definition constant_slice :: "fl list \<Rightarrow> bool" where
  "constant_slice xs = (case valid xs of [] \<Rightarrow> False | v # vs \<Rightarrow> list_all (\<lambda>u. u = v) vs)"


text \<open>
  The canonical shape \<open>(n_series, max_len, d)\<close> of a dataset: the shape of the array
  that the Dataset Normalizer builds from it.
\<close>

definition canonical_shape :: "array_like \<Rightarrow> nat list option" where
  "canonical_shape X =
     (case to_time_series_dataset X of
        Inl e \<Rightarrow> None
      | Inr X' \<Rightarrow> Some [n_ts X', sz_of X', dim_of X'])"

section \<open>Lemmas about the library functions\<close>

lemma check_array_Inl: "check_array X = Inl e \<Longrightarrow> e = InvalidInput"
  by (cases X) (auto split: if_splits)

lemma check_array_Inr: "check_array X = Inr X' \<Longrightarrow> X' = X"
  by (cases X) (auto split: if_splits)

lemma check_dims_Inl: "check_dims X dims = Inl e \<Longrightarrow> e = ShapeMismatch"
  by (auto simp: check_dims_def split: if_splits)

lemma check_dims_Inr: "check_dims X dims = Inr X' \<Longrightarrow> X' = X"
  by (auto simp: check_dims_def split: if_splits)

lemma to_time_series_dataset_Inl: "to_time_series_dataset X = Inl e \<Longrightarrow> e = InvalidInput"
  by (auto simp: to_time_series_dataset_def Let_def split: list.splits if_splits)

lemma ts_size_le: "ts_size s \<le> length s"
  unfolding ts_size_def by (metis length_dropWhile_le length_rev)

lemma foldr_max_ge: "x \<in> set xs \<Longrightarrow> x \<le> foldr max xs (0::nat)"
  by (induction xs) auto

lemma length_pad: "ts_size s \<le> max_sz \<Longrightarrow> length (pad max_sz d s) = max_sz"
  using ts_size_le [of s] by (simp add: pad_def)

lemma to_time_series_dataset_series:
  assumes "to_time_series_dataset X = Inr X'"
  shows "length (series_of X') = n_ts X'" and "s \<in> set (series_of X') \<Longrightarrow> length s = sz_of X'"
proof -
  show "length (series_of X') = n_ts X'"
    using assms by (auto simp: to_time_series_dataset_def Let_def split: list.splits if_splits)
  show "length s = sz_of X'" if "s \<in> set (series_of X')"
  proof (cases "as_series X")
    case Nil
    with assms that show ?thesis by (auto simp: to_time_series_dataset_def)
  next
    case (Cons s0 rest)
    define m where "m = foldr max (map ts_size (s0 # rest)) 0"
    from assms Cons have X': "sz_of X' = m" "series_of X' = map (pad m (dim_of X')) (s0 # rest)"
      by (auto simp: to_time_series_dataset_def Let_def m_def split: if_splits)
    from that X' obtain r where r: "r \<in> set (s0 # rest)" "s = pad m (dim_of X') r" by auto
    then have "ts_size r \<in> set (map ts_size (s0 # rest))" by auto
    then have "ts_size r \<le> m" unfolding m_def by (rule foldr_max_ge)
    with r X' show ?thesis by (simp add: length_pad)
  qed
qed

lemma minmax_transform_Inr:
  assumes "TimeSeriesScalerMinMax_transform self X = (w, Inr out)"
  obtains X' where "to_time_series_dataset X = Inr X'" "sz_of X' \<noteq> 0"
    "out = TSData (n_ts X') (sz_of X') (dim_of X')
             (map (minmax_series (snd (effective_range self)) (dim_of X')) (series_of X'))"
    "\<not> fge (fst (snd (effective_range self))) (snd (snd (effective_range self)))"
    "w = fst (effective_range self)"
  using assms
  by (auto simp: TimeSeriesScalerMinMax_transform_def minmax_scale_def
      dest!: check_array_Inr check_dims_Inr
      split: prod.splits sum.splits option.splits if_splits)

lemma minmax_series_nth:
  assumes "t < length s" "di < d"
  shows "minmax_series vr d s ! t ! di =
    fadd (fdiv (fmul (fsub (s ! t ! di) (nanmin (column di s))) (fsub (snd vr) (fst vr)))
               (fsub (nanmax (column di s)) (nanmin (column di s)))) (fst vr)"
  using assms by (simp add: minmax_series_def Let_def)


lemma isnan_iff: "isnan x \<longleftrightarrow> x = NaN"
  by (cases x) auto

lemma fle_refl: "\<not> isnan a \<Longrightarrow> fle a a"
  by (simp add: fle_def)

lemma fle_trans: "fle a b \<Longrightarrow> fle b c \<Longrightarrow> fle a c"
  by (cases a; cases b; cases c) (auto simp: fle_def)

lemma fmin_cases: "fmin a b = a \<or> fmin a b = b"
  by (simp add: fmin_def)

lemma fmax_cases: "fmax a b = a \<or> fmax a b = b"
  by (simp add: fmax_def)

lemma fmin_isnan: "isnan (fmin a b) \<longleftrightarrow> isnan a \<and> isnan b"
  by (simp add: fmin_def)

lemma fmax_isnan: "isnan (fmax a b) \<longleftrightarrow> isnan a \<and> isnan b"
  by (simp add: fmax_def)

lemma fmin_le: "\<not> isnan a \<Longrightarrow> fle (fmin a b) a" "\<not> isnan b \<Longrightarrow> fle (fmin a b) b"
  by (cases a; cases b; auto simp: fmin_def fle_def)+

lemma fmax_ge: "\<not> isnan a \<Longrightarrow> fle a (fmax a b)" "\<not> isnan b \<Longrightarrow> fle b (fmax a b)"
  by (cases a; cases b; auto simp: fmax_def fle_def)+

lemma foldl_fmin_isnan: "isnan (foldl fmin a xs) \<longleftrightarrow> valid (a # xs) = []"
  by (induction xs arbitrary: a) (auto simp: valid_def fmin_isnan)

lemma foldl_fmax_isnan: "isnan (foldl fmax a xs) \<longleftrightarrow> valid (a # xs) = []"
  by (induction xs arbitrary: a) (auto simp: valid_def fmax_isnan)

lemma foldl_fmin_mem: "valid (a # xs) \<noteq> [] \<Longrightarrow> foldl fmin a xs \<in> set (valid (a # xs))"
proof (induction xs arbitrary: a)
  case Nil
  then show ?case by (auto simp: valid_def split: if_splits)
next
  case (Cons x xs)
  have "valid (fmin a x # xs) \<noteq> []"
    using Cons.prems by (auto simp: valid_def fmin_isnan split: if_splits)
  from Cons.IH [OF this] have "foldl fmin (fmin a x) xs \<in> set (valid (fmin a x # xs))" .
  moreover have "set (valid (fmin a x # xs)) \<subseteq> set (valid (a # x # xs))"
    using fmin_cases [of a x] by (auto simp: valid_def)
  ultimately show ?case by auto
qed

lemma foldl_fmax_mem: "valid (a # xs) \<noteq> [] \<Longrightarrow> foldl fmax a xs \<in> set (valid (a # xs))"
proof (induction xs arbitrary: a)
  case Nil
  then show ?case by (auto simp: valid_def split: if_splits)
next
  case (Cons x xs)
  have "valid (fmax a x # xs) \<noteq> []"
    using Cons.prems by (auto simp: valid_def fmax_isnan split: if_splits)
  from Cons.IH [OF this] have "foldl fmax (fmax a x) xs \<in> set (valid (fmax a x # xs))" .
  moreover have "set (valid (fmax a x # xs)) \<subseteq> set (valid (a # x # xs))"
    using fmax_cases [of a x] by (auto simp: valid_def)
  ultimately show ?case by auto
qed

lemma foldl_fmin_le: "v \<in> set (valid (a # xs)) \<Longrightarrow> fle (foldl fmin a xs) v"
proof (induction xs arbitrary: a v)
  case Nil
  then show ?case by (auto simp: valid_def fle_refl split: if_splits)
next
  case (Cons x xs)
  show ?case
  proof (cases "v \<in> set (valid xs)")
    case True
    then have "v \<in> set (valid (fmin a x # xs))" by (auto simp: valid_def)
    from Cons.IH [OF this] show ?thesis by simp
  next
    case False
    with Cons.prems have v: "\<not> isnan v" "v = a \<or> v = x" by (auto simp: valid_def split: if_splits)
    then have nn: "\<not> isnan (fmin a x)" by (auto simp: fmin_isnan)
    then have "fmin a x \<in> set (valid (fmin a x # xs))" by (simp add: valid_def)
    from Cons.IH [OF this] have "fle (foldl fmin (fmin a x) xs) (fmin a x)" .
    moreover have "fle (fmin a x) v" using v fmin_le [of a x] fmin_le(2) [of x a] by auto
    ultimately show ?thesis using fle_trans by auto
  qed
qed

lemma foldl_fmax_ge: "v \<in> set (valid (a # xs)) \<Longrightarrow> fle v (foldl fmax a xs)"
proof (induction xs arbitrary: a v)
  case Nil
  then show ?case by (auto simp: valid_def fle_refl split: if_splits)
next
  case (Cons x xs)
  show ?case
  proof (cases "v \<in> set (valid xs)")
    case True
    then have "v \<in> set (valid (fmax a x # xs))" by (auto simp: valid_def)
    from Cons.IH [OF this] show ?thesis by simp
  next
    case False
    with Cons.prems have v: "\<not> isnan v" "v = a \<or> v = x" by (auto simp: valid_def split: if_splits)
    then have nn: "\<not> isnan (fmax a x)" by (auto simp: fmax_isnan)
    then have "fmax a x \<in> set (valid (fmax a x # xs))" by (simp add: valid_def)
    from Cons.IH [OF this] have "fle (fmax a x) (foldl fmax (fmax a x) xs)" .
    moreover have "fle v (fmax a x)" using v fmax_ge [of a x] fmax_ge(2) [of x a] by auto
    ultimately show ?thesis using fle_trans by auto
  qed
qed

lemma nanmin_props:
  "valid xs = [] \<Longrightarrow> nanmin xs = NaN"
  "valid xs \<noteq> [] \<Longrightarrow> nanmin xs \<in> set (valid xs)"
  "v \<in> set (valid xs) \<Longrightarrow> fle (nanmin xs) v"
proof -
  show "valid xs = [] \<Longrightarrow> nanmin xs = NaN"
    using foldl_fmin_isnan by (cases xs) (auto simp: isnan_iff valid_def)
  show "valid xs \<noteq> [] \<Longrightarrow> nanmin xs \<in> set (valid xs)"
    using foldl_fmin_mem by (cases xs) (auto simp: valid_def)
  show "v \<in> set (valid xs) \<Longrightarrow> fle (nanmin xs) v"
    using foldl_fmin_le by (cases xs) (auto simp: valid_def)
qed

lemma nanmax_props:
  "valid xs = [] \<Longrightarrow> nanmax xs = NaN"
  "valid xs \<noteq> [] \<Longrightarrow> nanmax xs \<in> set (valid xs)"
  "v \<in> set (valid xs) \<Longrightarrow> fle v (nanmax xs)"
proof -
  show "valid xs = [] \<Longrightarrow> nanmax xs = NaN"
    using foldl_fmax_isnan by (cases xs) (auto simp: isnan_iff valid_def)
  show "valid xs \<noteq> [] \<Longrightarrow> nanmax xs \<in> set (valid xs)"
    using foldl_fmax_mem by (cases xs) (auto simp: valid_def)
  show "v \<in> set (valid xs) \<Longrightarrow> fle v (nanmax xs)"
    using foldl_fmax_ge by (cases xs) (auto simp: valid_def)
qed

lemma constant_slice_minmax:
  assumes "constant_slice xs"
  shows "\<exists>v. \<not> isnan v \<and> nanmin xs = v \<and> nanmax xs = v \<and> (\<forall>u\<in>set xs. isnan u \<or> u = v)"
proof -
  from assms obtain v vs where v: "valid xs = v # vs" "list_all (\<lambda>u. u = v) vs"
    by (auto simp: constant_slice_def split: list.splits)
  then have set: "set (valid xs) = {v}" by (auto simp: list_all_iff)
  have "v \<in> set (valid xs)" using v by simp
  then have nn: "\<not> isnan v" by (simp add: valid_def)
  have "nanmin xs = v" "nanmax xs = v"
    using nanmin_props(2) [of xs] nanmax_props(2) [of xs] v set by auto
  moreover have "\<forall>u\<in>set xs. isnan u \<or> u = v"
    using set by (auto simp: valid_def)
  ultimately show ?thesis using nn by blast
qed

lemma zero_span_nan:
  assumes "\<not> isnan v" "isnan u \<or> u = v"
  shows "fadd (fdiv (fmul (fsub u v) r) (fsub v v)) lo = NaN"
  using assms by (cases v; cases u; cases r; cases lo) (auto simp: fsub_def inf_of_sign_def)

lemma series_nth:
  assumes "to_time_series_dataset X = Inr X'" "i < n_ts X'"
  shows "length (series_of X' ! i) = sz_of X'"
  using to_time_series_dataset_series [OF assms(1)] assms(2) by simp

lemma fge_not_flt: "fge a b \<Longrightarrow> \<not> flt a b"
  by (cases a; cases b) (auto simp: fge_def fle_def)

lemma minmax_scale_Inl: "minmax_scale vr X = Inl e \<Longrightarrow> e = ZeroSizeReduction"
  by (auto simp: minmax_scale_def split: if_splits)

lemma minmax_transform_invalid:
  "fge (fst (snd (effective_range self))) (snd (snd (effective_range self))) \<Longrightarrow>
   snd (TimeSeriesScalerMinMax_transform self X) =
     Inl (InvalidConfiguration (fst (snd (effective_range self))) (snd (snd (effective_range self))))"
  by (simp add: TimeSeriesScalerMinMax_transform_def case_prod_beta)

lemma minmax_transform_valid:
  "\<not> fge (fst (snd (effective_range self))) (snd (snd (effective_range self))) \<Longrightarrow>
   snd (TimeSeriesScalerMinMax_transform self X) =
     (case check_array X of
        Inl e \<Rightarrow> Inl e
      | Inr X1 \<Rightarrow>
          (case X_fit_dims self of
             None \<Rightarrow> Inl NotFitted
           | Some dims \<Rightarrow>
               (case check_dims X1 dims of
                  Inl e \<Rightarrow> Inl e
                | Inr X2 \<Rightarrow>
                    (case to_time_series_dataset X2 of
                       Inl e \<Rightarrow> Inl e
                     | Inr X3 \<Rightarrow> minmax_scale (snd (effective_range self)) X3))))"
  by (simp add: TimeSeriesScalerMinMax_transform_def case_prod_beta)

lemma meanvar_transform_unfitted:
  "X_fit_dims self = None \<Longrightarrow>
   TimeSeriesScalerMeanVariance_transform self X =
     (case check_array X of Inl e \<Rightarrow> Inl e | Inr X1 \<Rightarrow> Inl NotFitted)"
  by (simp add: TimeSeriesScalerMeanVariance_transform_def split: sum.splits)



lemma isfinite_iff: "isfinite x \<longleftrightarrow> (\<exists>a. x = Fin a)"
  by (cases x) auto




lemma foldl_fadd_finite:
  "\<forall>x\<in>set xs. isfinite x \<Longrightarrow> foldl fadd (Fin a) xs = Fin (a + sum_list (map fin_val xs))"
  by (induction xs arbitrary: a) (auto simp: isfinite_iff add.assoc)











lemma drop_ts_size_padding: "step \<in> set (drop (ts_size s) s) \<Longrightarrow> is_padding step"
proof -
  assume a: "step \<in> set (drop (ts_size s) s)"
  have "rev s = takeWhile is_padding (rev s) @ dropWhile is_padding (rev s)" by simp
  then have "s = rev (dropWhile is_padding (rev s)) @ rev (takeWhile is_padding (rev s))"
    by (metis rev_append rev_rev_ident)
  then have "drop (ts_size s) s = rev (takeWhile is_padding (rev s))"
    by (metis append_eq_conv_conj length_rev ts_size_def)
  with a have "step \<in> set (takeWhile is_padding (rev s))" by simp
  then show ?thesis by (rule set_takeWhileD [THEN conjunct2])
qed

lemma valid_append: "valid (xs @ ys) = valid xs @ valid ys"
  by (simp add: valid_def)

lemma valid_replicate_NaN: "valid (replicate n NaN) = []"
  by (simp add: valid_def)

lemma column_append: "column di (xs @ ys) = column di xs @ column di ys"
  by (simp add: column_def)

lemma valid_column_pad:
  assumes "\<forall>step\<in>set s. length step = d" "di < d"
  shows "valid (column di (pad max_sz d s)) = valid (column di s)"
proof -
  have "valid (column di (drop (ts_size s) s)) = []"
  proof -
    have "isnan (step ! di)" if "step \<in> set (drop (ts_size s) s)" for step
    proof -
      from that have "is_padding step" by (rule drop_ts_size_padding)
      moreover from that assms have "di < length step" by (auto dest: in_set_dropD)
      ultimately show ?thesis by (simp add: is_padding_def list_all_length)
    qed
    then show ?thesis by (auto simp: valid_def column_def filter_empty_conv)
  qed
  moreover have "valid (column di s) =
      valid (column di (take (ts_size s) s)) @ valid (column di (drop (ts_size s) s))"
    by (metis append_take_drop_id column_append valid_append)
  moreover have "column di (replicate (max_sz - ts_size s) (replicate d NaN)) =
      replicate (max_sz - ts_size s) NaN"
    using assms(2) by (simp add: column_def)
  ultimately show ?thesis
    by (simp add: pad_def column_append valid_append valid_replicate_NaN)
qed

lemma to_time_series_dataset_pad:
  assumes "to_time_series_dataset X = Inr X'" "i < n_ts X'"
  shows "n_ts X' = length (as_series X)"
    and "series_of X' ! i = pad (sz_of X') (dim_of X') (as_series X ! i)"
    and "\<forall>step\<in>set (as_series X ! i). length step = dim_of X'"
proof -
  from assms obtain s0 rest where c: "as_series X = s0 # rest"
    by (cases "as_series X") (auto simp: to_time_series_dataset_def)
  from assms(1) c have X': "n_ts X' = length (as_series X)"
    "series_of X' = map (pad (sz_of X') (dim_of X')) (as_series X)"
    "\<not> list_ex (list_ex (\<lambda>step. length step \<noteq> dim_of X')) (as_series X)"
    by (auto simp: to_time_series_dataset_def Let_def split: if_splits)
  show "n_ts X' = length (as_series X)" by fact
  show "series_of X' ! i = pad (sz_of X') (dim_of X') (as_series X ! i)"
    using X' assms(2) by simp
  have "as_series X ! i \<in> set (as_series X)" using X'(1) assms(2) by simp
  with X'(3) show "\<forall>step\<in>set (as_series X ! i). length step = dim_of X'"
    by (auto simp: list_ex_iff)
qed

lemma nanmean_finite:
  assumes "\<forall>v\<in>set (valid xs). isfinite v" "valid xs \<noteq> []"
  shows "nanmean xs = Fin (sum_list (map fin_val (valid xs)) / real (length (valid xs)))"
  using assms by (simp add: nanmean_def fsum_def foldl_fadd_finite)







lemma fmul_one: "fmul y (Fin 1) = y"
  by (cases y) (auto simp: inf_of_sign_def)

lemma fmul_zero: "isfinite y \<Longrightarrow> fmul y (Fin 0) = Fin 0"
  by (cases y) auto

lemma fadd_zero: "fadd y (Fin 0) = y" "fadd (Fin 0) y = y"
  by (cases y; simp)+

lemma slinear_first:
  assumes "x0 < x1" "isfinite y1"
  shows "slinear (x0 # x1 # xs) (y0 # y1 # ys) x0 = y0"
  using assms by (simp add: fmul_one fmul_zero fadd_zero)















lemma meanvar_transform_fitted:
  "X_fit_dims self = Some dims \<Longrightarrow> check_array X = Inr X \<Longrightarrow>
   TimeSeriesScalerMeanVariance_transform self X =
     (case check_dims X dims of
        Inl e \<Rightarrow> Inl e
      | Inr X2 \<Rightarrow>
          (case to_time_series_dataset X2 of
             Inl e \<Rightarrow> Inl e
           | Inr X3 \<Rightarrow>
               Inr (TSData (n_ts X3) (sz_of X3) (dim_of X3)
                      (map (meanvar_series (mu self) (std self) (dim_of X3)) (series_of X3)))))"
  by (simp add: TimeSeriesScalerMeanVariance_transform_def)

lemma rectangular_iff: "rectangular xs \<longleftrightarrow> (\<forall>x\<in>set xs. length x = row_len xs)"
  by (cases xs) (auto simp: rectangular_def row_len_def list_all_iff)

section \<open>Properties of the transforms\<close>

text \<open>
  C1. \<^verbatim>\<open>TimeSeriesScalerMinMax.transform\<close> divides by \<open>range_t = max_t - min_t\<close> with no guard.
  Whenever the transform returns, a series that is constant in a feature (its valid samples
  in that feature are one value, possibly a single sample) has equal minimum and maximum
  there, and every output value of that series in that feature is not-a-number, the outcome
  of the division by the zero span.
\<close>

theorem C1_zero_span_not_guarded:
  assumes "TimeSeriesScalerMinMax_transform self X = (w, Inr out)"
    and "to_time_series_dataset X = Inr X'"
    and "i < n_ts X'" and "t < sz_of X'" and "di < dim_of X'"
    and "constant_slice (column di (series_of X' ! i))"
  shows "nanmax (column di (series_of X' ! i)) = nanmin (column di (series_of X' ! i)) \<and>
         series_of out ! i ! t ! di = NaN"
proof -
  let ?s = "series_of X' ! i"
  from constant_slice_minmax [OF assms(6)] obtain v where v: "\<not> isnan v"
    "nanmin (column di ?s) = v" "nanmax (column di ?s) = v" "\<forall>u\<in>set (column di ?s). isnan u \<or> u = v"
    by blast
  have len: "length (series_of X') = n_ts X'" "length ?s = sz_of X'"
    using to_time_series_dataset_series(1) [OF assms(2)] series_nth [OF assms(2,3)] by auto
  from assms(1) obtain X'' where X'': "to_time_series_dataset X = Inr X''"
    "out = TSData (n_ts X'') (sz_of X'') (dim_of X'')
             (map (minmax_series (snd (effective_range self)) (dim_of X'')) (series_of X''))"
    by (rule minmax_transform_Inr)
  with assms(2) have out: "series_of out = map (minmax_series (snd (effective_range self)) (dim_of X')) (series_of X')"
    by simp
  have "?s ! t ! di \<in> set (column di ?s)"
    using assms(4) len by (auto simp: column_def)
  with v have u: "isnan (?s ! t ! di) \<or> ?s ! t ! di = v" by blast
  have "series_of out ! i ! t ! di = NaN"
    using assms(3,4,5) len v(2,3) zero_span_nan [OF v(1) u]
    by (simp add: out minmax_series_nth)
  with v show ?thesis by simp
qed

theorem C1_zero_span_not_guarded_witness:
  "TimeSeriesScalerMinMax_transform
     \<lparr>X_fit_dims = Some [1, 2], value_range = (Fin 0, Fin 1), min_param = None, max_param = None\<rparr>
     (Table [[Fin 3, Fin 3]]) = ([], Inr (TSData 1 2 1 [[[NaN], [NaN]]])) \<and>
   constant_slice (column 0 [[Fin 3], [Fin 3]]) \<and>
   nanmax (column 0 [[Fin 3], [Fin 3]]) = nanmin (column 0 [[Fin 3], [Fin 3]]) \<and>
   series_of (TSData 1 2 1 [[[NaN], [NaN]]]) ! 0 ! 1 ! 0 = NaN"
proof -
  let ?self = "\<lparr>X_fit_dims = Some [1, 2], value_range = (Fin 0, Fin 1), min_param = None, max_param = None\<rparr>"
  let ?X' = "TSData 1 2 1 [[[Fin 3], [Fin 3]]]"
  have tr: "TimeSeriesScalerMinMax_transform ?self (Table [[Fin 3, Fin 3]]) = ([], Inr (TSData 1 2 1 [[[NaN], [NaN]]]))"
    by code_simp
  have ds: "to_time_series_dataset (Table [[Fin 3, Fin 3]]) = Inr ?X'"
    by code_simp
  have c: "constant_slice (column 0 (series_of ?X' ! 0))"
    by code_simp
  from C1_zero_span_not_guarded [OF tr ds _ _ _ c, of 1] tr c
  show ?thesis by simp
qed

text \<open>
  C4. With the range in force after the legacy overrides \<open>(lo, hi)\<close>: when \<open>lo >= hi\<close>,
  \<^verbatim>\<open>TimeSeriesScalerMinMax.transform\<close> raises the configuration error that carries the
  pair, whatever the input and whether or not the scaler was fitted (nothing is computed
  on the data before the check); when \<open>lo < hi\<close> it never raises that error.
\<close>

theorem C4_invalid_range:
  "(fge (fst (snd (effective_range self))) (snd (snd (effective_range self))) \<longrightarrow>
      snd (TimeSeriesScalerMinMax_transform self X) =
        Inl (InvalidConfiguration (fst (snd (effective_range self))) (snd (snd (effective_range self))))) \<and>
   (flt (fst (snd (effective_range self))) (snd (snd (effective_range self))) \<longrightarrow>
      (\<forall>a b. snd (TimeSeriesScalerMinMax_transform self X) \<noteq> Inl (InvalidConfiguration a b)))"
proof (intro conjI impI allI)
  assume "fge (fst (snd (effective_range self))) (snd (snd (effective_range self)))"
  then show "snd (TimeSeriesScalerMinMax_transform self X) =
        Inl (InvalidConfiguration (fst (snd (effective_range self))) (snd (snd (effective_range self))))"
    by (rule minmax_transform_invalid)
next
  fix a b
  assume "flt (fst (snd (effective_range self))) (snd (snd (effective_range self)))"
  then have "\<not> fge (fst (snd (effective_range self))) (snd (snd (effective_range self)))"
    using fge_not_flt by blast
  from minmax_transform_valid [OF this, of X]
  show "snd (TimeSeriesScalerMinMax_transform self X) \<noteq> Inl (InvalidConfiguration a b)"
    by (auto dest: check_array_Inl check_dims_Inl to_time_series_dataset_Inl minmax_scale_Inl
        split: sum.splits option.splits)
qed

theorem C4_invalid_range_witness:
  "fge (Fin 2) (Fin 1) \<and>
   snd (TimeSeriesScalerMinMax_transform
          \<lparr>X_fit_dims = None, value_range = (Fin 0, Fin 1), min_param = Some (Fin 2), max_param = None\<rparr>
          (Flat [])) = Inl (InvalidConfiguration (Fin 2) (Fin 1)) \<and>
   flt (Fin 1) (Fin 2) \<and>
   snd (TimeSeriesScalerMinMax_transform
          \<lparr>X_fit_dims = Some [1, 3], value_range = (Fin 1, Fin 2), min_param = None, max_param = None\<rparr>
          (Table [[Fin 0, Fin 3, Fin 6]])) \<noteq> Inl (InvalidConfiguration (Fin 1) (Fin 2))"
proof -
  let ?bad = "\<lparr>X_fit_dims = None, value_range = (Fin 0, Fin 1), min_param = Some (Fin 2), max_param = None\<rparr>"
  let ?good = "\<lparr>X_fit_dims = Some [1, 3], value_range = (Fin 1, Fin 2), min_param = None, max_param = None\<rparr>"
  have bad: "snd (effective_range ?bad) = (Fin 2, Fin 1)" and good: "snd (effective_range ?good) = (Fin 1, Fin 2)"
    by (simp_all add: effective_range_def)
  have ge: "fge (Fin 2) (Fin 1)" and lt: "flt (Fin 1) (Fin 2)"
    by (simp_all add: fge_def fle_def)
  from C4_invalid_range [of ?bad "Flat []"] C4_invalid_range [of ?good "Table [[Fin 0, Fin 3, Fin 6]]"]
  show ?thesis
    unfolding bad good using ge lt by simp
qed



text \<open>
  C8. A call of \<^verbatim>\<open>TimeSeriesScalerMinMax.transform\<close> with legacy parameters emits one
  deprecation warning for each parameter that is set (\<^verbatim>\<open>min\<close> first) and otherwise
  behaves as the call without legacy parameters whose \<^verbatim>\<open>value_range\<close> has its lower end
  replaced by \<^verbatim>\<open>min\<close> and its upper end by \<^verbatim>\<open>max\<close>: the validation and the scaling use
  the overridden range, and the warnings do not abort the call.
\<close>

theorem C8_legacy_overrides:
  "TimeSeriesScalerMinMax_transform self X =
     ((case min_param self of Some m \<Rightarrow> [DeprecatedMin] | None \<Rightarrow> []) @
      (case max_param self of Some m \<Rightarrow> [DeprecatedMax] | None \<Rightarrow> []),
      snd (TimeSeriesScalerMinMax_transform
             (self\<lparr>value_range :=
                      (case min_param self of Some m \<Rightarrow> m | None \<Rightarrow> fst (value_range self),
                       case max_param self of Some m \<Rightarrow> m | None \<Rightarrow> snd (value_range self)),
                    min_param := None, max_param := None\<rparr>) X))"
  by (cases "min_param self"; cases "max_param self")
     (simp_all add: TimeSeriesScalerMinMax_transform_def effective_range_def cong: sum.case_cong)

theorem C8_legacy_overrides_witness:
  "TimeSeriesScalerMinMax_transform
     \<lparr>X_fit_dims = Some [1, 3], value_range = (Fin 0, Fin 1), min_param = Some (Fin 1), max_param = Some (Fin 2)\<rparr>
     (Table [[Fin 0, Fin 3, Fin 6]]) =
   ([DeprecatedMin, DeprecatedMax], Inr (TSData 1 3 1 [[[Fin 1], [Fin (3 / 2)], [Fin 2]]]))"
proof -
  have "snd (TimeSeriesScalerMinMax_transform
     \<lparr>X_fit_dims = Some [1, 3], value_range = (Fin 1, Fin 2), min_param = None, max_param = None\<rparr>
     (Table [[Fin 0, Fin 3, Fin 6]])) = Inr (TSData 1 3 1 [[[Fin 1], [Fin (3 / 2)], [Fin 2]]])"
    by code_simp
  with C8_legacy_overrides [of "\<lparr>X_fit_dims = Some [1, 3], value_range = (Fin 0, Fin 1),
      min_param = Some (Fin 1), max_param = Some (Fin 2)\<rparr>" "Table [[Fin 0, Fin 3, Fin 6]]"]
  show ?thesis by simp
qed

text \<open>
  C10. Called before any \<^verbatim>\<open>fit\<close>, \<^verbatim>\<open>transform\<close> of either scaler raises for every input:
  when the range is valid and \<^verbatim>\<open>check_array\<close> accepts the input, the error is that of
  reading the attribute \<^verbatim>\<open>_X_fit_dims\<close>, which does not exist yet.
\<close>

theorem C10_transform_before_fit:
  assumes "X_fit_dims self = None" and "X_fit_dims self' = None"
  shows "(\<exists>e. snd (TimeSeriesScalerMinMax_transform self X) = Inl e) \<and>
         (\<exists>e. TimeSeriesScalerMeanVariance_transform self' X = Inl e) \<and>
         (\<not> fge (fst (snd (effective_range self))) (snd (snd (effective_range self))) \<and>
          check_array X = Inr X \<longrightarrow>
            snd (TimeSeriesScalerMinMax_transform self X) = Inl NotFitted \<and>
            TimeSeriesScalerMeanVariance_transform self' X = Inl NotFitted)"
proof (intro conjI impI)
  show "\<exists>e. snd (TimeSeriesScalerMinMax_transform self X) = Inl e"
  proof (cases "fge (fst (snd (effective_range self))) (snd (snd (effective_range self)))")
    case True
    then show ?thesis by (simp add: minmax_transform_invalid)
  next
    case False
    then show ?thesis using assms(1) by (simp add: minmax_transform_valid split: sum.splits)
  qed
  show "\<exists>e. TimeSeriesScalerMeanVariance_transform self' X = Inl e"
    using assms(2) by (simp add: meanvar_transform_unfitted split: sum.splits)
next
  assume a: "\<not> fge (fst (snd (effective_range self))) (snd (snd (effective_range self))) \<and> check_array X = Inr X"
  then show "snd (TimeSeriesScalerMinMax_transform self X) = Inl NotFitted"
    using assms(1) by (simp add: minmax_transform_valid)
  from a show "TimeSeriesScalerMeanVariance_transform self' X = Inl NotFitted"
    using assms(2) by (simp add: meanvar_transform_unfitted)
qed

theorem C10_transform_before_fit_witness:
  "snd (TimeSeriesScalerMinMax_transform
          \<lparr>X_fit_dims = None, value_range = (Fin 0, Fin 1), min_param = None, max_param = None\<rparr>
          (Table [[Fin 0, Fin 3, Fin 6]])) = Inl NotFitted \<and>
   TimeSeriesScalerMeanVariance_transform \<lparr>X_fit_dims = None, mu = Fin 0, std = Fin 1\<rparr>
          (Table [[Fin 0, Fin 3, Fin 6]]) = Inl NotFitted"
proof -
  let ?a = "\<lparr>X_fit_dims = None, value_range = (Fin 0, Fin 1), min_param = None, max_param = None\<rparr>"
  let ?b = "\<lparr>X_fit_dims = None, mu = Fin 0, std = Fin 1\<rparr>"
  have h: "X_fit_dims ?a = None" "X_fit_dims ?b = None" by simp_all
  have r: "\<not> fge (fst (snd (effective_range ?a))) (snd (snd (effective_range ?a)))"
    by (simp add: effective_range_def fge_def fle_def)
  have c: "check_array (Table [[Fin 0, Fin 3, Fin 6]]) = Inr (Table [[Fin 0, Fin 3, Fin 6]])"
    by (simp add: rectangular_def row_len_def)
  from C10_transform_before_fit [OF h, of "Table [[Fin 0, Fin 3, Fin 6]]"] r c
  show ?thesis by blast
qed




text \<open>
  C6. With \<^verbatim>\<open>sz = 1\<close>, \<^verbatim>\<open>TimeSeriesResampler.transform\<close> returns for every dataset that the
  normalizer accepts: one output series for each input series, of exactly one step with
  one value for each feature, which is \<^verbatim>\<open>numpy.nanmean\<close> of that feature over the steps of
  the input series: for finite samples, their sum over their count, the sentinel left out.
\<close>

theorem C6_unit_size_mean:
  assumes "sz_param self = 1" and "to_time_series_dataset X = Inr X'"
  shows "\<exists>out. TimeSeriesResampler_transform self X = Inr out \<and>
           n_ts out = n_ts X' \<and> sz_of out = 1 \<and> dim_of out = dim_of X' \<and>
           length (series_of out) = n_ts X' \<and>
           (\<forall>i<n_ts X'. length (series_of out ! i) = 1 \<and>
              length (series_of out ! i ! 0) = dim_of X' \<and>
              (\<forall>di<dim_of X'.
                 series_of out ! i ! 0 ! di = nanmean (column di (as_series X ! i)) \<and>
                 ((\<forall>v\<in>set (valid (column di (as_series X ! i))). isfinite v) \<and>
                  valid (column di (as_series X ! i)) \<noteq> [] \<longrightarrow>
                    series_of out ! i ! 0 ! di =
                      Fin (sum_list (map fin_val (valid (column di (as_series X ! i)))) /
                           real (length (valid (column di (as_series X ! i))))))))"
proof -
  let ?out = "transform_unit_sz self X'"
  have tr: "TimeSeriesResampler_transform self X = Inr ?out"
    using assms by (simp add: TimeSeriesResampler_transform_def)
  have len: "length (series_of X') = n_ts X'"
    using to_time_series_dataset_series(1) [OF assms(2)] .
  have shape: "n_ts ?out = n_ts X'" "sz_of ?out = 1" "dim_of ?out = dim_of X'"
    "length (series_of ?out) = n_ts X'"
    using assms(1) len by (simp_all add: transform_unit_sz_def)
  have el: "length (series_of ?out ! i) = 1 \<and> length (series_of ?out ! i ! 0) = dim_of X' \<and>
      (\<forall>di<dim_of X'.
         series_of ?out ! i ! 0 ! di = nanmean (column di (as_series X ! i)) \<and>
         ((\<forall>v\<in>set (valid (column di (as_series X ! i))). isfinite v) \<and>
          valid (column di (as_series X ! i)) \<noteq> [] \<longrightarrow>
            series_of ?out ! i ! 0 ! di =
              Fin (sum_list (map fin_val (valid (column di (as_series X ! i)))) /
                   real (length (valid (column di (as_series X ! i)))))))"
    if i: "i < n_ts X'" for i
  proof -
    have v: "valid (column di (series_of X' ! i)) = valid (column di (as_series X ! i))"
      if "di < dim_of X'" for di
      using to_time_series_dataset_pad(2,3) [OF assms(2) i] that by (simp add: valid_column_pad)
    have m: "series_of ?out ! i ! 0 ! di = nanmean (column di (as_series X ! i))"
      if "di < dim_of X'" for di
      using i len that v [OF that] by (simp add: transform_unit_sz_def nanmean_def)
    show ?thesis
      using i len m nanmean_finite by (auto simp: transform_unit_sz_def)
  qed
  from tr shape el show ?thesis by blast
qed

theorem C6_unit_size_mean_witness:
  "TimeSeriesResampler_transform \<lparr>sz_param = 1\<rparr> (Table [[Fin 0, Fin 3, Fin 6], [Fin 1, NaN]]) =
     Inr (TSData 2 1 1 [[[Fin 3]], [[Fin 1]]]) \<and>
   nanmean (column 0 (as_series (Table [[Fin 0, Fin 3, Fin 6], [Fin 1, NaN]]) ! 0)) = Fin ((0 + 3 + 6) / 3)"
proof -
  let ?X = "Table [[Fin 0, Fin 3, Fin 6], [Fin 1, NaN]]"
  let ?X' = "TSData 2 3 1 [[[Fin 0], [Fin 3], [Fin 6]], [[Fin 1], [NaN], [NaN]]]"
  let ?self = "\<lparr>sz_param = 1\<rparr>"
  have h: "sz_param ?self = 1" by simp
  have ds: "to_time_series_dataset ?X = Inr ?X'" by code_simp
  have tr: "TimeSeriesResampler_transform ?self ?X = Inr (TSData 2 1 1 [[[Fin 3]], [[Fin 1]]])"
    by code_simp
  from C6_unit_size_mean [OF h ds] obtain out where
    o: "TimeSeriesResampler_transform ?self ?X = Inr out" and
    e: "\<forall>i<n_ts ?X'. length (series_of out ! i) = 1 \<and>
              length (series_of out ! i ! 0) = dim_of ?X' \<and>
              (\<forall>di<dim_of ?X'.
                 series_of out ! i ! 0 ! di = nanmean (column di (as_series ?X ! i)) \<and>
                 ((\<forall>v\<in>set (valid (column di (as_series ?X ! i))). isfinite v) \<and>
                  valid (column di (as_series ?X ! i)) \<noteq> [] \<longrightarrow>
                    series_of out ! i ! 0 ! di =
                      Fin (sum_list (map fin_val (valid (column di (as_series ?X ! i)))) /
                           real (length (valid (column di (as_series ?X ! i)))))))"
    by blast
  from o tr have out: "out = TSData 2 1 1 [[[Fin 3]], [[Fin 1]]]" by simp
  from e have "series_of out ! 0 ! 0 ! 0 = nanmean (column 0 (as_series ?X ! 0))"
    by simp
  with tr show ?thesis by (simp add: out)
qed




text \<open>
  C5 (as the code has it). \<^verbatim>\<open>fit\<close> of either scaler records \<^verbatim>\<open>X.shape\<close> of the array that
  \<^verbatim>\<open>check_array\<close> returns and changes nothing else of the component: the values of the
  dataset are not used. For a three-dimensional input that shape is \<open>(n_series, len, d)\<close>;
  for a two-dimensional input it has two entries. A later \<^verbatim>\<open>transform\<close> whose input has
  another feature count than the recorded shape fails with the shape mismatch that
  \<^verbatim>\<open>check_dims\<close> raises.
\<close>

theorem C5_fit_records_shape:
  "(check_array X = Inr X \<longrightarrow>
      TimeSeriesScalerMinMax_fit self X = Inr (self\<lparr>X_fit_dims := Some (shape X)\<rparr>) \<and>
      TimeSeriesScalerMeanVariance_fit self' X = Inr (self'\<lparr>X_fit_dims := Some (shape X)\<rparr>)) \<and>
   (check_array (Cube xs) = Inr (Cube xs) \<longrightarrow>
      shape (Cube xs) = [length xs, row_len xs, row_len (concat xs)] \<and>
      (\<forall>s\<in>set xs. length s = row_len xs \<and>
         (\<forall>step\<in>set s. length step = row_len (concat xs)))) \<and>
   (X_fit_dims self = Some dims \<and>
    \<not> fge (fst (snd (effective_range self))) (snd (snd (effective_range self))) \<and>
    check_array Y = Inr Y \<and> n_features (shape Y) \<noteq> n_features dims \<longrightarrow>
      snd (TimeSeriesScalerMinMax_transform self Y) = Inl ShapeMismatch) \<and>
   (X_fit_dims self' = Some dims' \<and> check_array Y = Inr Y \<and>
    n_features (shape Y) \<noteq> n_features dims' \<longrightarrow>
      TimeSeriesScalerMeanVariance_transform self' Y = Inl ShapeMismatch)"
proof (intro conjI impI)
  assume "check_array X = Inr X"
  then show "TimeSeriesScalerMinMax_fit self X = Inr (self\<lparr>X_fit_dims := Some (shape X)\<rparr>)"
    and "TimeSeriesScalerMeanVariance_fit self' X = Inr (self'\<lparr>X_fit_dims := Some (shape X)\<rparr>)"
    by (simp_all add: TimeSeriesScalerMinMax_fit_def TimeSeriesScalerMeanVariance_fit_def)
next
  assume c: "check_array (Cube xs) = Inr (Cube xs)"
  show "shape (Cube xs) = [length xs, row_len xs, row_len (concat xs)]" by simp
  from c have r: "rectangular xs" "rectangular (concat xs)" by (auto split: if_splits)
  show "\<forall>s\<in>set xs. length s = row_len xs \<and> (\<forall>step\<in>set s. length step = row_len (concat xs))"
    using r by (auto simp: rectangular_iff)
next
  assume a: "X_fit_dims self = Some dims \<and>
    \<not> fge (fst (snd (effective_range self))) (snd (snd (effective_range self))) \<and>
    check_array Y = Inr Y \<and> n_features (shape Y) \<noteq> n_features dims"
  then have "check_dims Y dims = Inl ShapeMismatch" by (auto simp: check_dims_def)
  with a show "snd (TimeSeriesScalerMinMax_transform self Y) = Inl ShapeMismatch"
    by (simp add: minmax_transform_valid)
next
  assume a: "X_fit_dims self' = Some dims' \<and> check_array Y = Inr Y \<and>
    n_features (shape Y) \<noteq> n_features dims'"
  then have "check_dims Y dims' = Inl ShapeMismatch" by (auto simp: check_dims_def)
  with a show "TimeSeriesScalerMeanVariance_transform self' Y = Inl ShapeMismatch"
    by (simp add: meanvar_transform_fitted)
qed

theorem C5_fit_records_shape_witness:
  "TimeSeriesScalerMinMax_fit
     \<lparr>X_fit_dims = None, value_range = (Fin 0, Fin 1), min_param = None, max_param = None\<rparr>
     (Cube [[[Fin 0, Fin 1], [Fin 3, Fin 4]]]) =
     Inr \<lparr>X_fit_dims = Some [1, 2, 2], value_range = (Fin 0, Fin 1), min_param = None, max_param = None\<rparr> \<and>
   snd (TimeSeriesScalerMinMax_transform
     \<lparr>X_fit_dims = Some [1, 2, 2], value_range = (Fin 0, Fin 1), min_param = None, max_param = None\<rparr>
     (Table [[Fin 0, Fin 3]])) = Inl ShapeMismatch \<and>
   TimeSeriesScalerMeanVariance_transform \<lparr>X_fit_dims = Some [1, 2, 2], mu = Fin 0, std = Fin 1\<rparr>
     (Table [[Fin 0, Fin 3]]) = Inl ShapeMismatch"
proof -
  let ?a = "\<lparr>X_fit_dims = None, value_range = (Fin 0, Fin 1), min_param = None, max_param = None\<rparr>"
  let ?a' = "\<lparr>X_fit_dims = Some [1, 2, 2], value_range = (Fin 0, Fin 1), min_param = None, max_param = None\<rparr>"
  let ?b' = "\<lparr>X_fit_dims = Some [1, 2, 2], mu = Fin 0, std = Fin 1\<rparr>"
  let ?X = "Cube [[[Fin 0, Fin 1], [Fin 3, Fin 4]]]"
  let ?Y = "Table [[Fin 0, Fin 3]]"
  have cx: "check_array ?X = Inr ?X" and cy: "check_array ?Y = Inr ?Y"
    by (simp_all add: rectangular_def row_len_def)
  have sh: "shape ?X = [1, 2, 2]" by (simp add: row_len_def)
  have r: "\<not> fge (fst (snd (effective_range ?a'))) (snd (snd (effective_range ?a')))"
    by (simp add: effective_range_def fge_def fle_def)
  have nf: "n_features (shape ?Y) \<noteq> n_features [1, 2, 2]" by (simp add: row_len_def)
  have f1: "TimeSeriesScalerMinMax_fit ?a ?X = Inr ?a'"
    using C5_fit_records_shape [of ?X ?a ?b' "[]" "[1, 2, 2]" ?Y "[1, 2, 2]"] cx sh by simp
  have t1: "snd (TimeSeriesScalerMinMax_transform ?a' ?Y) = Inl ShapeMismatch"
    using C5_fit_records_shape [of ?X ?a' ?b' "[]" "[1, 2, 2]" ?Y "[1, 2, 2]"] r cy nf by simp
  have t2: "TimeSeriesScalerMeanVariance_transform ?b' ?Y = Inl ShapeMismatch"
    using C5_fit_records_shape [of ?X ?a' ?b' "[]" "[1, 2, 2]" ?Y "[1, 2, 2]"] cy nf by simp
  from f1 t1 t2 show ?thesis by (simp only: simp_thms)
qed

theorem C5_counterexample:
  "TimeSeriesScalerMinMax_fit
     \<lparr>X_fit_dims = None, value_range = (Fin 1, Fin 2), min_param = None, max_param = None\<rparr>
     (Table [[Fin 0, Fin 3, Fin 6]]) =
     Inr \<lparr>X_fit_dims = Some [1, 3], value_range = (Fin 1, Fin 2), min_param = None, max_param = None\<rparr> \<and>
   canonical_shape (Table [[Fin 0, Fin 3, Fin 6]]) = Some [1, 3, 1] \<and>
   Some [1, 3] \<noteq> Some [1, 3, 1::nat]"
  by (simp add: TimeSeriesScalerMinMax_fit_def rectangular_def row_len_def canonical_shape_def
      to_time_series_dataset_def ts_size_def is_padding_def pad_def)



end
